theory Spec2Isabelle
  imports Main
begin

section \<open>JavaScript values and React output trees\<close>

text \<open>
  Strings are \<open>string\<close>: a character stands for one code unit below 256 (the Latin-1
  range), which covers every literal of the renderer.

  \<open>jsval\<close> are the JavaScript values that reach the renderer as property values,
  macro values and \<open>customData\<close> payloads. \<open>Undefined\<close> and \<open>Null\<close> are kept apart
  because the source tests \<open>!== undefined\<close>, \<open>== undefined\<close> and \<open>??\<close> differently.
  \<open>Opaque\<close> is a value the renderer only passes on (a function, a host object), named.
\<close>

datatype jsval =
    Undefined
  | Null
  | Bool bool
  | Num int
  | Str string
  | Obj "(string \<times> jsval) list"
  | Opaque string

text \<open>JavaScript truthiness, as tested by \<open>if (v)\<close>, \<open>!!v\<close> and \<open>v ? a : b\<close>.\<close>

fun truthy :: "jsval \<Rightarrow> bool" where
  "truthy Undefined = False"
| "truthy Null = False"
| "truthy (Bool b) = b"
| "truthy (Num n) = (n \<noteq> 0)"
| "truthy (Str s) = (s \<noteq> [])"
| "truthy (Obj _) = True"
| "truthy (Opaque _) = True"

text \<open>The nullish coalescing operator \<open>a ?? b\<close>.\<close>

fun nullish :: "jsval \<Rightarrow> bool" where
  "nullish Undefined = True"
| "nullish Null = True"
| "nullish _ = False"

definition coalesce :: "jsval \<Rightarrow> jsval \<Rightarrow> jsval" where
  "coalesce a b = (if nullish a then b else a)"

text \<open>Property read \<open>o.k\<close> on an object value; a missing property reads \<open>undefined\<close>.\<close>

definition get_prop :: "(string \<times> jsval) list \<Rightarrow> string \<Rightarrow> jsval" where
  "get_prop ps k = (case map_of ps k of None \<Rightarrow> Undefined | Some v \<Rightarrow> v)"

text \<open>
  A \<open>React.ReactElement\<close> (type \<open>RenderedNode\<close> of the source) is a fragment, a host
  element (\<open><p>\<close>, \<open><a>\<close>, ...) or an element of a component imported from elsewhere
  (\<open>CodeBlock\<close>, \<open>MathBlock\<close>, ...), which stays unexpanded. Props are an association
  list in the order of the JSX. A child of an element is an element, a string, or a
  value that renders nothing (\<open>null\<close>, \<open>undefined\<close>, \<open>false\<close>). The \<open>key\<close> prop is
  not modelled: it does not appear in the rendered output. \<open>Other\<close> is any other value
  put in child position (an object): no render function of the source produces it and
  it shows no text.
\<close>

datatype relem =
    Fragment "rchild list"
  | Element string "(string \<times> jsval) list" "rchild list"
  | Component string "(string \<times> jsval) list" "rchild list"
and rchild =
    Child relem
  | Text string
  | Nothing
  | Other jsval

text \<open>
  An attribute of the rendered element: React leaves out a prop whose value is
  \<open>undefined\<close> or \<open>null\<close>.
\<close>

definition attribute :: "(string \<times> jsval) list \<Rightarrow> string \<Rightarrow> jsval option" where
  "attribute ps k =
     (case map_of ps k of
        None \<Rightarrow> None
      | Some v \<Rightarrow> (if nullish v then None else Some v))"

fun tag_of :: "relem \<Rightarrow> string option" where
  "tag_of (Element t _ _) = Some t"
| "tag_of _ = None"

fun props_of :: "relem \<Rightarrow> (string \<times> jsval) list" where
  "props_of (Fragment _) = []"
| "props_of (Element _ ps _) = ps"
| "props_of (Component _ ps _) = ps"

fun children_of :: "relem \<Rightarrow> rchild list" where
  "children_of (Fragment cs) = cs"
| "children_of (Element _ _ cs) = cs"
| "children_of (Component _ _ cs) = cs"

text \<open>The visible text of an output tree, in document order.\<close>

fun texts :: "relem \<Rightarrow> string list" and texts_child :: "rchild \<Rightarrow> string list" where
  "texts (Fragment cs) = concat (map texts_child cs)"
| "texts (Element _ _ cs) = concat (map texts_child cs)"
| "texts (Component _ _ cs) = concat (map texts_child cs)"
| "texts_child (Child e) = texts e"
| "texts_child (Text s) = [s]"
| "texts_child Nothing = []"
| "texts_child (Other _) = []"

text \<open>\<open>{children}\<close> inside JSX: the array of rendered children becomes the child list.\<close>

abbreviation jsx_children :: "relem list \<Rightarrow> rchild list" where
  "jsx_children cs \<equiv> map Child cs"

text \<open>\<open>{s}\<close> for a \<open>string | null\<close> value: \<open>null\<close> renders nothing.\<close>

fun jsx_string :: "string option \<Rightarrow> rchild" where
  "jsx_string None = Nothing"
| "jsx_string (Some s) = Text s"

section \<open>Nodes, options and context\<close>

text \<open>
  The fields of a commonmark \<open>Node\<close> that the renderer reads. \<open>parent\<close> is the
  back-reference used for ancestry queries. \<open>customData\<close> is \<open>Undefined\<close> when the node
  carries none.
\<close>

datatype node = Node
  (ntype: string)
  (literal: "string option")
  (destination: "string option")
  (title: "string option")
  (info: "string option")
  (level: nat)
  (listType: "string option")
  (listTight: bool)
  (listStart: "int option")
  (customData: jsval)
  (parent: "node option")

datatype error = TypeError string | Error string

text \<open>
  \<open>ReactRenderingOptions\<close>: \<open>HtmlRenderingOptions\<close> (\<open>safe\<close>, \<open>softbreak\<close>, \<open>esc\<close>) with
  \<open>parseLink\<close> and \<open>templateHandler\<close>; every field is optional. A template handler is a
  component, named here by a string.
\<close>

record ReactRenderingOptions =
  safe :: "bool option"
  softbreak :: "string option"
  esc :: "(string \<Rightarrow> string) option"
  parseLink :: "(string \<Rightarrow> string) option"
  templateHandler :: "string option"

text \<open>
  The constructor of \<open>LaydownNodeRenderer\<close>:
  \<open>Object.assign({ softbreak: '\n' }, options)\<close>; a field that the caller leaves out
  keeps the default.
\<close>

definition default_options :: ReactRenderingOptions where
  "default_options =
     \<lparr>safe = None, softbreak = Some [CHR 0x0A], esc = None, parseLink = None,
      templateHandler = None\<rparr>"

definition LaydownNodeRenderer :: "ReactRenderingOptions option \<Rightarrow> ReactRenderingOptions" where
  "LaydownNodeRenderer options =
     (case options of
        None \<Rightarrow> default_options
      | Some opts \<Rightarrow>
          (case softbreak opts of
             None \<Rightarrow> opts\<lparr>softbreak := Some [CHR 0x0A]\<rparr>
           | Some _ \<Rightarrow> opts))"

text \<open>\<open>this.options.safe\<close> in a condition.\<close>

definition is_safe :: "ReactRenderingOptions \<Rightarrow> bool" where
  "is_safe opts = (safe opts = Some True)"

text \<open>
  \<open>LaydownRenderingContext\<close>: the anchor of the enclosing section and the macro store,
  of which the renderer only calls \<open>check(scope, attribute)\<close>; a missing annotation is
  \<open>Undefined\<close>.
\<close>

record LaydownRenderingContext =
  navHref :: "string option"
  macroStore_check :: "string \<Rightarrow> string \<Rightarrow> jsval"

section \<open>Collaborators imported from other modules\<close>

text \<open>
  What \<open>html-react-parser\<close> and \<open>deepFilterHtmlNode\<close> return: a string, one element or an
  array of elements (the source tests \<open>typeof htmlBlock !== 'string'\<close> and
  \<open>htmlBlock instanceof Array\<close>).
\<close>

datatype htmlres = HStr string | HElem relem | HArr "relem list"

fun jsx_html :: "htmlres \<Rightarrow> rchild list" where
  "jsx_html (HStr s) = [Text s]"
| "jsx_html (HElem e) = [Child e]"
| "jsx_html (HArr es) = map Child es"

text \<open>
  The functions and assets that \<open>node-renderer.tsx\<close> imports and whose code is in other
  modules (\<open>./html-renderer\<close>, \<open>html-react-parser\<close>, \<open>../base/common\<close>, the style sheet,
  the link icon) and the builtin \<open>JSON.stringify\<close> are parameters of the model.
\<close>

record externals =
  potentiallyUnsafe :: "string option \<Rightarrow> bool"
  parse :: "string \<Rightarrow> htmlres"
  deepFilterHtmlNode :: "htmlres \<Rightarrow> htmlres"
  replaceChildren :: "relem \<Rightarrow> relem list \<Rightarrow> relem"
  handleHtmlElementLink :: "relem \<Rightarrow> (string \<Rightarrow> string) option \<Rightarrow> relem"
  deepFilterStringChildren :: "relem \<Rightarrow> string"
  styles :: "string \<Rightarrow> jsval"
  linkIcon :: string
  JSON_stringify :: "jsval \<Rightarrow> string"

section \<open>String helpers of JavaScript\<close>

text \<open>The white space of \<open>\s\<close> below code unit 256.\<close>

definition is_space :: "char \<Rightarrow> bool" where
  "is_space c = (c \<in> set [CHR 0x09, CHR 0x0A, CHR 0x0B, CHR 0x0C, CHR 0x0D, CHR 0x20, CHR 0xA0])"

text \<open>
  \<open>s.split(/\s+/)\<close>: the pieces between the maximal runs of white space; a string that
  starts (ends) with white space has an empty first (last) piece.
\<close>

function split_ws :: "string \<Rightarrow> string list" where
  "split_ws s =
     (let w = takeWhile (\<lambda>c. \<not> is_space c) s;
          r = dropWhile (\<lambda>c. \<not> is_space c) s
      in if r = [] then [w] else w # split_ws (dropWhile is_space r))"
  by pat_completeness auto
termination
proof (relation "measure length")
  show "wf (measure length)" by simp
next
  fix s :: string and w r :: string
  assume r: "r = dropWhile (\<lambda>c. \<not> is_space c) s" and ne: "r \<noteq> []"
  from ne obtain c cs where rc: "r = c # cs" by (cases r) auto
  have "length (dropWhile is_space r) \<le> length r" by (rule length_dropWhile_le)
  moreover have "is_space c" using rc r by (metis hd_dropWhile list.sel(1) ne)
  hence "dropWhile is_space r = dropWhile is_space cs" using rc by simp
  hence "length (dropWhile is_space r) < length r"
    using rc length_dropWhile_le [of is_space cs] by simp
  moreover have "length r \<le> length s" using r by (simp add: length_dropWhile_le)
  ultimately show "(dropWhile is_space r, s) \<in> measure length" by simp
qed

text \<open>Decimal notation of a number, for template literals such as \<open>`h${node.level}`\<close>.\<close>

definition digit :: "nat \<Rightarrow> char" where
  "digit d = ''0123456789'' ! (d mod 10)"

function show_nat :: "nat \<Rightarrow> string" where
  "show_nat n = (if n < 10 then [digit n] else show_nat (n div 10) @ [digit (n mod 10)])"
  by pat_completeness auto
termination
  by (relation "measure id") auto

definition show_int :: "int \<Rightarrow> string" where
  "show_int i = (if i < 0 then CHR ''-'' # show_nat (nat (- i)) else show_nat (nat i))"

text \<open>String conversion of a value inside a template literal or a concatenation.\<close>

fun js_to_string :: "jsval \<Rightarrow> string" where
  "js_to_string Undefined = ''undefined''"
| "js_to_string Null = ''null''"
| "js_to_string (Bool b) = (if b then ''true'' else ''false'')"
| "js_to_string (Num i) = show_int i"
| "js_to_string (Str s) = s"
| "js_to_string (Obj _) = ''[object Object]''"
| "js_to_string (Opaque s) = s"

text \<open>\<open>href.replace(/^#?/, '')\<close>: one leading \<open>#\<close> is removed.\<close>

fun strip_hash :: "string \<Rightarrow> string" where
  "strip_hash [] = []"
| "strip_hash (c # cs) = (if c = CHR ''#'' then cs else c # cs)"

section \<open>The components defined in the renderer's module\<close>

text \<open>
  A JSX element of a function component of this module is modelled by the tree the
  component returns for its props, which is what React renders in its place.
\<close>

definition TitleAnchor :: "externals \<Rightarrow> string \<Rightarrow> string \<Rightarrow> bool \<Rightarrow> relem" where
  "TitleAnchor ext to ident noClick =
     Element ''div'' [(''className'', styles ext ''title-anchor'')]
       [Child (Element ''div'' []
          [Child (Element ''span''
                    [(''className'', styles ext ''title-id''), (''id'', Str ident)] []),
           (if \<not> noClick
            then Child (Element ''a'' [(''href'', Str to)]
                          [Child (Element ''img'' [(''src'', Str (linkIcon ext))] [])])
            else Nothing)])]"

definition DefaultTemplateNode :: "externals \<Rightarrow> jsval \<Rightarrow> relem" where
  "DefaultTemplateNode ext params =
     Fragment
       [Child (Element ''span'' [] [Text ''Template Node'']),
        Child (Element ''br'' [] []),
        Child (Element ''span'' [] [Text (JSON_stringify ext params)])]"

section \<open>The render functions of LaydownNodeRenderer\<close>

text \<open>
  Each method takes what it reads of \<open>(this.options, context, node, children)\<close>; the
  imported collaborators come first.
\<close>

definition text_node :: "node \<Rightarrow> relem" where
  "text_node n = Fragment [jsx_string (literal n)]"

definition softbreak_node :: relem where
  "softbreak_node = Fragment []"

definition linebreak :: relem where
  "linebreak = Element ''br'' [] []"

definition link :: "externals \<Rightarrow> ReactRenderingOptions \<Rightarrow> node \<Rightarrow> relem list \<Rightarrow> relem" where
  "link ext opts n children =
     (let href = (if \<not> (is_safe opts \<and> potentiallyUnsafe ext (destination n))
                  then (case destination n of None \<Rightarrow> Undefined | Some d \<Rightarrow> Str d)
                  else Undefined);
          title' = (case title n of
                      None \<Rightarrow> Undefined
                    | Some t \<Rightarrow> (if t \<noteq> [] then Str t else Undefined))
      in Element ''a'' [(''href'', href), (''title'', title')] (jsx_children children))"

definition image_node :: "externals \<Rightarrow> ReactRenderingOptions \<Rightarrow> node \<Rightarrow> relem" where
  "image_node ext opts n =
     (if is_safe opts \<and> potentiallyUnsafe ext (destination n)
      then Element ''span'' [] [Text ''[ERROR: POTENTIALLY UNSAFE LINK OMITTED]'']
      else
        (let d = (case destination n of None \<Rightarrow> [] | Some d \<Rightarrow> d);
             src = (case esc opts of None \<Rightarrow> d | Some f \<Rightarrow> f d)
         in Element ''img''
              [(''src'', Str (case parseLink opts of None \<Rightarrow> src | Some g \<Rightarrow> g src))] []))"

definition emph :: "relem list \<Rightarrow> relem" where
  "emph children = Element ''em'' [] (jsx_children children)"

definition strong :: "relem list \<Rightarrow> relem" where
  "strong children = Element ''strong'' [] (jsx_children children)"

definition html_inline :: "externals \<Rightarrow> ReactRenderingOptions \<Rightarrow> node \<Rightarrow> relem" where
  "html_inline ext opts n =
     (if is_safe opts
      then Fragment [Text ''[ERROR: RAW HTML OMITTED]'']
      else Fragment (jsx_html (deepFilterHtmlNode ext
                       (parse ext (case literal n of None \<Rightarrow> [] | Some l \<Rightarrow> l)))))"

definition html_block :: "externals \<Rightarrow> ReactRenderingOptions \<Rightarrow> node \<Rightarrow> relem" where
  "html_block ext opts n = html_inline ext opts n"

definition code_node :: "node \<Rightarrow> relem" where
  "code_node n = Component ''CodeSpan'' [] [jsx_string (literal n)]"

definition code_block :: "ReactRenderingOptions \<Rightarrow> node \<Rightarrow> relem" where
  "code_block opts n =
     (let info_words = (case info n of
                          None \<Rightarrow> []
                        | Some i \<Rightarrow> (if i \<noteq> [] then split_ws i else []));
          lang = (case info_words of
                    [] \<Rightarrow> None
                  | w # _ \<Rightarrow>
                      (if w \<noteq> []
                       then Some (case esc opts of None \<Rightarrow> w | Some f \<Rightarrow> f w)
                       else None))
      in if lang = Some ''math'' \<or> lang = Some ''latex''
         then Component ''MathBlock'' [] [jsx_string (literal n)]
         else Component ''CodeBlock''
                [(''lang'', (case lang of None \<Rightarrow> Undefined | Some l \<Rightarrow> Str l))]
                [jsx_string (literal n)])"

definition paragraph_node :: "node \<Rightarrow> relem list \<Rightarrow> relem" where
  "paragraph_node n children =
     (let grandparent = (case parent n of None \<Rightarrow> None | Some p \<Rightarrow> parent p) in
      case grandparent of
        None \<Rightarrow> Element ''p'' [] (jsx_children children)
      | Some g \<Rightarrow>
          if ntype g = ''list'' \<and> listTight g
          then Fragment (jsx_children children)
          else Element ''p'' [] (jsx_children children))"

definition block_quote :: "relem list \<Rightarrow> relem" where
  "block_quote children = Element ''blockquote'' [] (jsx_children children)"

definition item :: "relem list \<Rightarrow> relem" where
  "item children = Element ''li'' [] (jsx_children children)"

definition list_node :: "node \<Rightarrow> relem list \<Rightarrow> relem" where
  "list_node n children =
     (let start = listStart n;
          start' = (case start of
                      None \<Rightarrow> Undefined
                    | Some s \<Rightarrow> (if s \<noteq> 1 then Num s else Undefined))
      in if listType n = Some ''bullet''
         then Element ''ul'' [] (jsx_children children)
         else Element ''ol'' [(''start'', start')] (jsx_children children))"

text \<open>
  The two macro lookups of the heading: \<open>check(HeadingTag, a) ?? check('heading', a)\<close>.
\<close>

definition heading_macro :: "LaydownRenderingContext \<Rightarrow> string \<Rightarrow> string \<Rightarrow> jsval" where
  "heading_macro ctx HeadingTag a =
     coalesce (macroStore_check ctx HeadingTag a) (macroStore_check ctx ''heading'' a)"

definition heading ::
  "externals \<Rightarrow> LaydownRenderingContext \<Rightarrow> node \<Rightarrow> relem list \<Rightarrow> relem" where
  "heading ext ctx n children =
     (let HeadingTag = CHR ''h'' # show_nat (level n);
          href = (case navHref ctx of None \<Rightarrow> ''#null'' | Some h \<Rightarrow> h);
          shouldAlignCenter = (heading_macro ctx HeadingTag ''align-center'' \<noteq> Undefined)
      in Element HeadingTag
           [(''style'', (if shouldAlignCenter then Obj [(''textAlign'', Str ''center'')]
                         else Undefined))]
           (Child (TitleAnchor ext href (strip_hash href)
                     (truthy (heading_macro ctx HeadingTag ''no-link'')))
            # jsx_children children))"

definition thematic_break :: relem where
  "thematic_break = Element ''hr'' [] []"

definition document_node :: "relem list \<Rightarrow> relem" where
  "document_node children = Fragment (jsx_children children)"

definition math_block :: "node \<Rightarrow> relem" where
  "math_block n = Component ''MathBlock'' [] [jsx_string (literal n)]"

definition math_inline :: "node \<Rightarrow> relem" where
  "math_inline n = Component ''MathSpan'' [] [jsx_string (literal n)]"

text \<open>
  \<open>React.Children.toArray\<close> on an array of elements returns these elements in order
  (with new keys). Index \<open>[0]\<close> of an empty array is \<open>undefined\<close>, which renders nothing.
\<close>

definition Children_toArray :: "relem list \<Rightarrow> relem list" where
  "Children_toArray children = children"

definition table :: "relem list \<Rightarrow> relem" where
  "table children =
     Element ''table'' []
       [(case Children_toArray children of [] \<Rightarrow> Nothing | c # _ \<Rightarrow> Child c),
        Child (Element ''tbody'' [] (jsx_children (drop 1 (Children_toArray children))))]"

definition table_head :: "relem list \<Rightarrow> relem" where
  "table_head children =
     Element ''thead'' [] [Child (Element ''tr'' [] (jsx_children children))]"

definition table_row :: "relem list \<Rightarrow> relem" where
  "table_row children = Element ''tr'' [] (jsx_children children)"

text \<open>
  Reading a property of \<open>node.customData\<close>: on \<open>undefined\<close> or \<open>null\<close> the read throws a
  TypeError, on a primitive value it yields \<open>undefined\<close>.
\<close>

fun customData_props :: "jsval \<Rightarrow> error + (string \<times> jsval) list" where
  "customData_props Undefined = Inl (TypeError ''Cannot read properties of undefined'')"
| "customData_props Null = Inl (TypeError ''Cannot read properties of null'')"
| "customData_props (Obj ps) = Inr ps"
| "customData_props _ = Inr []"

definition table_cell :: "node \<Rightarrow> relem list \<Rightarrow> error + relem" where
  "table_cell n children =
     (case customData_props (customData n) of
        Inl e \<Rightarrow> Inl e
      | Inr content \<Rightarrow>
          (let CellTag = (if truthy (get_prop content ''isHeader'') then ''th'' else ''td'')
           in Inr (Element CellTag [(''align'', get_prop content ''align'')]
                     (jsx_children children))))"

text \<open>
  \<open>startTag\<close>, \<open>endTag\<close> and \<open>tagName\<close> of an \<open>HtmlParagraphDefinition\<close> are strings or
  \<open>undefined\<close>; the concatenation below is the one of strings.
\<close>

definition html_paragraph ::
  "externals \<Rightarrow> ReactRenderingOptions \<Rightarrow> node \<Rightarrow> relem list \<Rightarrow> error + relem" where
  "html_paragraph ext opts n children =
     (case customData_props (customData n) of
        Inl e \<Rightarrow> Inl e
      | Inr cd \<Rightarrow>
          (let startTag = get_prop cd ''startTag'';
               endTag = get_prop cd ''endTag'';
               tagName = get_prop cd ''tagName'';
               isValidNode = (startTag \<noteq> Undefined \<or> tagName \<noteq> Undefined)
           in if \<not> isValidNode then Inr (Fragment (jsx_children children))
              else
                (let htmlString = js_to_string (coalesce startTag (Str []))
                                    @ js_to_string (coalesce endTag (Str []));
                     htmlBlock = deepFilterHtmlNode ext (parse ext
                       (if htmlString \<noteq> [] then htmlString
                        else if coalesce tagName (Str []) \<noteq> Str []
                             then ''<'' @ js_to_string tagName @ ''>''
                             else []))
                 in case htmlBlock of
                      HStr _ \<Rightarrow> Inr (Fragment (jsx_children children))
                    | HArr [] \<Rightarrow> Inr (Fragment (jsx_children children))
                    | HArr (x # xs) \<Rightarrow>
                        Inr (Fragment (jsx_children
                          (map (\<lambda>x. handleHtmlElementLink ext x (parseLink opts))
                             (replaceChildren ext x children # xs))))
                    | HElem e \<Rightarrow>
                        Inr (handleHtmlElementLink ext (replaceChildren ext e children)
                               (parseLink opts)))))"

definition html_paragraph_text :: "node \<Rightarrow> relem" where
  "html_paragraph_text n = text_node n"

text \<open>
  \<open>template\<close>: a configured handler is a component from outside the module and stays an
  unexpanded element; its \<open>options\<close> prop is the renderer's option object.
\<close>

definition template :: "externals \<Rightarrow> ReactRenderingOptions \<Rightarrow> node \<Rightarrow> relem" where
  "template ext opts n =
     (let template' = customData n in
      if template' \<noteq> Undefined
      then (case templateHandler opts of
              None \<Rightarrow> DefaultTemplateNode ext template'
            | Some h \<Rightarrow>
                Component h [(''params'', template'), (''options'', Opaque ''this.options'')] [])
      else Fragment [])"

definition emoji :: "node \<Rightarrow> relem" where
  "emoji n = Fragment [Text (case literal n of None \<Rightarrow> [] | Some l \<Rightarrow> l)]"

section \<open>LaydownReactRenderer\<close>

subsection \<open>Dispatch\<close>

text \<open>The render methods of the class \<open>LaydownNodeRenderer\<close>, in the order of the source.\<close>

datatype render_method =
    M_text | M_softbreak | M_linebreak | M_link | M_image | M_emph | M_strong
  | M_html_inline | M_html_block | M_code | M_code_block | M_paragraph | M_block_quote
  | M_item | M_list | M_heading | M_thematic_break | M_document | M_math_block
  | M_math_inline | M_table | M_table_head | M_table_row | M_table_cell
  | M_html_paragraph | M_html_paragraph_text | M_template | M_emoji


text \<open>
  Calling a render method with \<open>this\<close> bound to the node renderer, as
  \<open>ret.bind(this.inner)\<close> arranges. A method that throws returns \<open>Inl\<close>.
\<close>

fun run_method ::
  "externals \<Rightarrow> ReactRenderingOptions \<Rightarrow> render_method \<Rightarrow> LaydownRenderingContext \<Rightarrow> node \<Rightarrow>
     relem list \<Rightarrow> error + relem" where
  "run_method ext opts M_text ctx n cs = Inr (text_node n)"
| "run_method ext opts M_softbreak ctx n cs = Inr softbreak_node"
| "run_method ext opts M_linebreak ctx n cs = Inr linebreak"
| "run_method ext opts M_link ctx n cs = Inr (link ext opts n cs)"
| "run_method ext opts M_image ctx n cs = Inr (image_node ext opts n)"
| "run_method ext opts M_emph ctx n cs = Inr (emph cs)"
| "run_method ext opts M_strong ctx n cs = Inr (strong cs)"
| "run_method ext opts M_html_inline ctx n cs = Inr (html_inline ext opts n)"
| "run_method ext opts M_html_block ctx n cs = Inr (html_block ext opts n)"
| "run_method ext opts M_code ctx n cs = Inr (code_node n)"
| "run_method ext opts M_code_block ctx n cs = Inr (code_block opts n)"
| "run_method ext opts M_paragraph ctx n cs = Inr (paragraph_node n cs)"
| "run_method ext opts M_block_quote ctx n cs = Inr (block_quote cs)"
| "run_method ext opts M_item ctx n cs = Inr (item cs)"
| "run_method ext opts M_list ctx n cs = Inr (list_node n cs)"
| "run_method ext opts M_heading ctx n cs = Inr (heading ext ctx n cs)"
| "run_method ext opts M_thematic_break ctx n cs = Inr thematic_break"
| "run_method ext opts M_document ctx n cs = Inr (document_node cs)"
| "run_method ext opts M_math_block ctx n cs = Inr (math_block n)"
| "run_method ext opts M_math_inline ctx n cs = Inr (math_inline n)"
| "run_method ext opts M_table ctx n cs = Inr (table cs)"
| "run_method ext opts M_table_head ctx n cs = Inr (table_head cs)"
| "run_method ext opts M_table_row ctx n cs = Inr (table_row cs)"
| "run_method ext opts M_table_cell ctx n cs = table_cell n cs"
| "run_method ext opts M_html_paragraph ctx n cs = html_paragraph ext opts n cs"
| "run_method ext opts M_html_paragraph_text ctx n cs = Inr (html_paragraph_text n)"
| "run_method ext opts M_template ctx n cs = Inr (template ext opts n)"
| "run_method ext opts M_emoji ctx n cs = Inr (emoji n)"











subsection \<open>stringify, keys and layout\<close>

definition stringify :: "externals \<Rightarrow> node \<Rightarrow> relem list \<Rightarrow> error + string" where
  "stringify ext n children =
     (if ntype n = ''html_block'' \<or> ntype n = ''html_inline''
      then Inr (case literal n of None \<Rightarrow> [] | Some l \<Rightarrow> l)
      else if ntype n = ''heading'' \<or> ntype n = ''paragraph''
      then Inr (deepFilterStringChildren ext (Fragment (jsx_children children)))
      else Inl (Error ''Method not implemented.''))"

definition resetChildrenKey :: "relem list \<Rightarrow> relem list" where
  "resetChildrenKey c = map (\<lambda>n. Fragment [Child n]) c"

definition renderLayout :: "(string \<times> jsval) list \<Rightarrow> relem list \<Rightarrow> relem" where
  "renderLayout params children =
     Component ''ReactLayout'' params (jsx_children (resetChildrenKey children))"

definition renderLayoutSlot :: "(string \<times> jsval) list \<Rightarrow> relem list \<Rightarrow> relem" where
  "renderLayoutSlot params children =
     Component ''ReactLayoutSlot'' params (jsx_children (resetChildrenKey children))"

subsection \<open>The walk over the tree\<close>







section \<open>ExtendedSyntaxOptions\<close>

text \<open>
  The syntax extension table. The handlers and triggers are imported from the syntax
  modules and are named here. \<open>reMaybeSpecial\<close> is the value of
  \<open>compileMaybeSpecialRegExp('$', '|', true)\<close>, a function of the commonmark package:
  the table records the arguments of the call.
\<close>

datatype block_handler =
  TableHandler | TableHeadHandler | TableRowHandler | TableCellHandler | MathHandler

datatype block_trigger = TableTrigger | MathTrigger

datatype inline_handler = parseInlineMathFence | parseInlineTemplate | parseInlineEmoji

definition blockHandlers :: "(string \<times> block_handler) list" where
  "blockHandlers =
     [(''table'', TableHandler), (''table_head'', TableHeadHandler),
      (''table_row'', TableRowHandler), (''table_cell'', TableCellHandler),
      (''math_block'', MathHandler)]"

definition blockStartHandlers :: "(int \<times> block_trigger list) list" where
  "blockStartHandlers = [(- 1, [TableTrigger]), (2, [MathTrigger])]"

definition reMaybeSpecial_arguments :: "char \<times> char \<times> bool" where
  "reMaybeSpecial_arguments = (CHR ''$'', CHR ''|'', True)"

definition inlineHandlers :: "(char \<times> inline_handler) list" where
  "inlineHandlers =
     [(CHR ''$'', parseInlineMathFence), (CHR ''@'', parseInlineTemplate),
      (CHR '':'', parseInlineEmoji)]"

section \<open>Observations on rendered output and example configurations\<close>

text \<open>The host elements of an output tree with their props, in document order.\<close>

fun elems :: "relem \<Rightarrow> (string \<times> (string \<times> jsval) list) list"
  and elems_child :: "rchild \<Rightarrow> (string \<times> (string \<times> jsval) list) list" where
  "elems (Fragment cs) = concat (map elems_child cs)"
| "elems (Element t ps cs) = (t, ps) # concat (map elems_child cs)"
| "elems (Component _ _ cs) = concat (map elems_child cs)"
| "elems_child (Child e) = elems e"
| "elems_child (Text _) = []"
| "elems_child Nothing = []"
| "elems_child (Other _) = []"

text \<open>
  Example collaborators, used where a statement is evaluated on concrete input: an
  unsafe-destination test that rejects \<open>javascript:\<close> URLs, an HTML parser that returns
  its input as text, and an XML escaping function as \<open>esc\<close> option.
\<close>

definition example_externals :: externals where
  "example_externals =
     \<lparr>potentiallyUnsafe =
        (\<lambda>d. case d of None \<Rightarrow> False | Some s \<Rightarrow> take 11 s = ''javascript:''),
      parse = HStr,
      deepFilterHtmlNode = (\<lambda>h. h),
      replaceChildren = (\<lambda>e cs. e),
      handleHtmlElementLink = (\<lambda>e f. e),
      deepFilterStringChildren = (\<lambda>e. concat (texts e)),
      styles = (\<lambda>k. Str k),
      linkIcon = ''link.svg'',
      JSON_stringify = js_to_string\<rparr>"

definition example_escapeXml :: "string \<Rightarrow> string" where
  "example_escapeXml s =
     concat (map (\<lambda>c. if c = CHR ''&'' then ''&amp;''
                       else if c = CHR ''<'' then ''&lt;''
                       else if c = CHR ''>'' then ''&gt;''
                       else if c = CHR 0x22 then ''&quot;''
                       else [c]) s)"

text \<open>A fresh node of a type, every other field unset.\<close>

definition example_node :: "string \<Rightarrow> node" where
  "example_node t = Node t None None None None 0 None False None Undefined None"

definition example_safe_options :: ReactRenderingOptions where
  "example_safe_options = LaydownNodeRenderer (Some (default_options\<lparr>safe := Some True\<rparr>))"

definition example_unsafe_link :: node where
  "example_unsafe_link =
     Node ''link'' None (Some ''javascript:alert(1)'') None None 0 None False None Undefined None"



text \<open>
  A macro store with the flag \<open>no-link\<close> on the generic scope \<open>heading\<close> and the flag
  \<open>align-center\<close> on scope \<open>h2\<close>.
\<close>

definition example_flags_context :: LaydownRenderingContext where
  "example_flags_context =
     \<lparr>navHref = Some ''#intro'',
      macroStore_check =
        (\<lambda>scope a. if scope = ''heading'' \<and> a = ''no-link'' then Bool True
                    else if scope = ''h2'' \<and> a = ''align-center'' then Bool True
                    else Undefined)\<rparr>"

definition example_esc_options :: ReactRenderingOptions where
  "example_esc_options =
     LaydownNodeRenderer (Some (default_options\<lparr>esc := Some example_escapeXml\<rparr>))"

definition example_code_block :: "string \<Rightarrow> node" where
  "example_code_block i =
     Node ''code_block'' (Some ''x'') None None (Some i) 0 None False None Undefined None"

definition example_list :: "string \<Rightarrow> bool \<Rightarrow> int option \<Rightarrow> node" where
  "example_list t tight start =
     Node ''list'' None None None None 0 (Some t) tight start Undefined None"

definition example_paragraph_in :: "node \<Rightarrow> node" where
  "example_paragraph_in l =
     Node ''paragraph'' None None None None 0 None False None Undefined
       (Some (Node ''item'' None None None None 0 None False None Undefined (Some l)))"

definition example_table_cell :: "bool \<Rightarrow> node" where
  "example_table_cell h =
     Node ''table_cell'' None None None None 0 None False None
       (Obj [(''isHeader'', Bool h), (''align'', Str ''left'')]) None"

definition example_html :: node where
  "example_html =
     Node ''html_inline'' (Some ''<b>'') None None None 0 None False None Undefined None"



section \<open>Dispatch of unregistered node types\<close>







section \<open>Safe mode for links and images\<close>

text \<open>
  Claim C2, at the failing input. In safe mode, for the link node with the
  destination \<open>javascript:alert(1)\<close>, which matches the unsafe pattern, and no children,
  the link renderer returns the element \<open>a\<close> without \<open>href\<close> and without any visible
  text, hence without the omission notice that the claim requires. Under the same
  condition the image renderer returns the notice
  \<open>[ERROR: POTENTIALLY UNSAFE LINK OMITTED]\<close>.
\<close>

theorem link_unsafe_no_notice:
  "is_safe example_safe_options \<and>
   potentiallyUnsafe example_externals (destination example_unsafe_link) \<and>
   link example_externals example_safe_options example_unsafe_link [] =
     Element ''a'' [(''href'', Undefined), (''title'', Undefined)] [] \<and>
   texts (link example_externals example_safe_options example_unsafe_link []) = [] \<and>
   image_node example_externals example_safe_options example_unsafe_link =
     Element ''span'' [] [Text ''[ERROR: POTENTIALLY UNSAFE LINK OMITTED]'']"
  by (simp add: example_safe_options_def example_externals_def example_unsafe_link_def
      is_safe_def default_options_def LaydownNodeRenderer_def link_def image_node_def)

text \<open>
  The \<open>href\<close> of a link: absent in safe mode for an unsafe destination, the destination
  verbatim when safe mode is off.
\<close>

lemma link_href:
  "(is_safe opts \<and> potentiallyUnsafe ext (destination n) \<longrightarrow>
      attribute (props_of (link ext opts n cs)) ''href'' = None) \<and>
   (\<not> is_safe opts \<and> destination n = Some d \<longrightarrow>
      attribute (props_of (link ext opts n cs)) ''href'' = Some (Str d))"
  by (simp add: link_def attribute_def Let_def)

section \<open>Textual extraction\<close>

text \<open>
  Claim C3. \<open>stringify\<close> returns a string exactly for the node types \<open>heading\<close>,
  \<open>paragraph\<close>, \<open>html_block\<close> and \<open>html_inline\<close>; for the two HTML types the string is
  the node's literal, the empty string when the literal is absent; for every other
  node type it throws the error \<open>Method not implemented.\<close>
\<close>

theorem stringify_textual_only:
  "((\<exists>s. stringify ext n cs = Inr s) \<longleftrightarrow>
      ntype n \<in> {''heading'', ''paragraph'', ''html_block'', ''html_inline''}) \<and>
   (ntype n \<in> {''html_block'', ''html_inline''} \<longrightarrow>
      stringify ext n cs = Inr (case literal n of None \<Rightarrow> [] | Some l \<Rightarrow> l)) \<and>
   (ntype n \<notin> {''heading'', ''paragraph'', ''html_block'', ''html_inline''} \<longrightarrow>
      stringify ext n cs = Inl (Error ''Method not implemented.''))"
  by (simp add: stringify_def)

theorem stringify_textual_only_witness:
  "stringify example_externals example_html [] = Inr ''<b>'' \<and>
   stringify example_externals (example_node ''html_block'') [] = Inr [] \<and>
   stringify example_externals (example_node ''table'') []
     = Inl (Error ''Method not implemented.'') \<and>
   stringify example_externals (example_node ''heading'') [] = Inr []"
  using stringify_textual_only [of example_externals example_html "[]"]
    stringify_textual_only [of example_externals "example_node ''html_block''" "[]"]
    stringify_textual_only [of example_externals "example_node ''table''" "[]"]
    stringify_textual_only [of example_externals "example_node ''heading''" "[]"]
  by (simp add: example_node_def example_html_def example_externals_def stringify_def)

section \<open>Headings and the macro store\<close>




section \<open>Paragraphs and lists\<close>

text \<open>
  Claim C5. A paragraph whose grandparent exists, is a list node and is flagged tight
  renders as its rendered children with no wrapping element; every other paragraph (no
  grandparent, a grandparent that is no list, a list that is not tight) is wrapped in a
  \<open>p\<close> element.
\<close>

theorem paragraph_tight_rule:
  "paragraph_node n cs =
     (if (\<exists>p g. parent n = Some p \<and> parent p = Some g \<and> ntype g = ''list'' \<and> listTight g)
      then Fragment (jsx_children cs)
      else Element ''p'' [] (jsx_children cs))"
  by (auto simp: paragraph_node_def Let_def split: option.splits)

theorem paragraph_tight_rule_witness:
  "paragraph_node (example_paragraph_in (example_list ''bullet'' True None)) [linebreak]
     = Fragment [Child linebreak] \<and>
   paragraph_node (example_paragraph_in (example_list ''bullet'' False None)) [linebreak]
     = Element ''p'' [] [Child linebreak] \<and>
   paragraph_node (example_paragraph_in (example_node ''block_quote'')) [linebreak]
     = Element ''p'' [] [Child linebreak] \<and>
   paragraph_node (example_node ''paragraph'') [linebreak]
     = Element ''p'' [] [Child linebreak]"
  using paragraph_tight_rule [of "example_paragraph_in (example_list ''bullet'' True None)"
      "[linebreak]"]
    paragraph_tight_rule [of "example_paragraph_in (example_list ''bullet'' False None)"
      "[linebreak]"]
    paragraph_tight_rule [of "example_paragraph_in (example_node ''block_quote'')"
      "[linebreak]"]
    paragraph_tight_rule [of "example_node ''paragraph''" "[linebreak]"]
  by (simp add: example_paragraph_in_def example_list_def example_node_def)

text \<open>
  Claim C6. A list node of type \<open>bullet\<close> renders as \<open>ul\<close> without a \<open>start\<close>
  attribute; any other list renders as \<open>ol\<close>, which carries a \<open>start\<close> attribute
  exactly when the start value of the node is defined and differs from 1, and then with
  that value. The children are rendered inside in both cases.
\<close>

theorem list_start_rule:
  "(listType n = Some ''bullet'' \<longrightarrow>
      tag_of (list_node n cs) = Some ''ul'' \<and>
      attribute (props_of (list_node n cs)) ''start'' = None) \<and>
   (listType n \<noteq> Some ''bullet'' \<longrightarrow>
      tag_of (list_node n cs) = Some ''ol'' \<and>
      attribute (props_of (list_node n cs)) ''start'' =
        (case listStart n of
           None \<Rightarrow> None
         | Some s \<Rightarrow> if s \<noteq> 1 then Some (Num s) else None)) \<and>
   children_of (list_node n cs) = jsx_children cs"
  by (auto simp: list_node_def Let_def attribute_def split: option.splits)

theorem list_start_rule_witness:
  "tag_of (list_node (example_list ''bullet'' True (Some 5)) []) = Some ''ul'' \<and>
   attribute (props_of (list_node (example_list ''bullet'' True (Some 5)) [])) ''start''
     = None \<and>
   tag_of (list_node (example_list ''ordered'' True (Some 1)) []) = Some ''ol'' \<and>
   attribute (props_of (list_node (example_list ''ordered'' True (Some 1)) [])) ''start''
     = None \<and>
   attribute (props_of (list_node (example_list ''ordered'' True (Some 5)) [])) ''start''
     = Some (Num 5) \<and>
   attribute (props_of (list_node (example_list ''ordered'' True None) [])) ''start''
     = None"
  using list_start_rule [of "example_list ''bullet'' True (Some 5)" "[]"]
    list_start_rule [of "example_list ''ordered'' True (Some 1)" "[]"]
    list_start_rule [of "example_list ''ordered'' True (Some 5)" "[]"]
    list_start_rule [of "example_list ''ordered'' True None" "[]"]
  by (simp add: example_list_def)

section \<open>Raw HTML\<close>

text \<open>
  Claim C8. In safe mode \<open>html_inline\<close> returns the notice \<open>[ERROR: RAW HTML OMITTED]\<close>
  whatever the literal of the node is; otherwise it returns the parsed and filtered
  literal (the empty string when the literal is absent). \<open>html_block\<close> returns what
  \<open>html_inline\<close> returns, also through the dispatch.
\<close>

theorem html_raw_rule:
  "(is_safe opts \<longrightarrow> html_inline ext opts n = Fragment [Text ''[ERROR: RAW HTML OMITTED]'']) \<and>
   (\<not> is_safe opts \<longrightarrow>
      html_inline ext opts n =
        Fragment (jsx_html (deepFilterHtmlNode ext
          (parse ext (case literal n of None \<Rightarrow> [] | Some l \<Rightarrow> l))))) \<and>
   html_block ext opts n = html_inline ext opts n \<and>
   run_method ext opts M_html_block ctx n cs = run_method ext opts M_html_inline ctx n cs"
  by (simp add: html_inline_def html_block_def)

theorem html_raw_rule_witness:
  "is_safe example_safe_options \<and>
   html_inline example_externals example_safe_options example_html
     = Fragment [Text ''[ERROR: RAW HTML OMITTED]''] \<and>
   html_block example_externals example_safe_options example_html
     = Fragment [Text ''[ERROR: RAW HTML OMITTED]''] \<and>
   \<not> is_safe default_options \<and>
   html_inline example_externals default_options example_html = Fragment [Text ''<b>''] \<and>
   html_block example_externals default_options (example_node ''html_block'')
     = Fragment [Text []]"
  using html_raw_rule [of example_safe_options example_externals example_html
      example_flags_context "[]"]
    html_raw_rule [of default_options example_externals example_html
      example_flags_context "[]"]
    html_raw_rule [of default_options example_externals "example_node ''html_block''"
      example_flags_context "[]"]
  by (simp add: example_safe_options_def example_externals_def example_html_def
      example_node_def is_safe_def default_options_def LaydownNodeRenderer_def)

section \<open>Code blocks\<close>

lemma split_ws_first: "split_ws i = takeWhile (\<lambda>c. \<not> is_space c) i # tl (split_ws i)"
  by (subst split_ws.simps) (simp add: Let_def)

text \<open>
  Claim C9, as amended. The first white-space-separated word of the info string, passed
  through the \<open>esc\<close> option when one is configured, is the language. When the info
  string is absent or empty, or its first word is empty, the node renders as a code
  block without language. Otherwise, when the language is exactly \<open>math\<close> or \<open>latex\<close>
  the node renders as a math block of its literal, and else as a code block of its
  literal tagged with the language.
\<close>

theorem code_block_language:
  "(info n = None \<or> info n = Some [] \<longrightarrow>
      code_block opts n =
        Component ''CodeBlock'' [(''lang'', Undefined)] [jsx_string (literal n)]) \<and>
   (info n = Some i \<and> i \<noteq> [] \<longrightarrow>
      (let w = takeWhile (\<lambda>c. \<not> is_space c) i;
           lang = (case esc opts of None \<Rightarrow> w | Some f \<Rightarrow> f w)
       in code_block opts n =
            (if w = [] then
               Component ''CodeBlock'' [(''lang'', Undefined)] [jsx_string (literal n)]
             else if lang = ''math'' \<or> lang = ''latex'' then
               Component ''MathBlock'' [] [jsx_string (literal n)]
             else
               Component ''CodeBlock'' [(''lang'', Str lang)] [jsx_string (literal n)])))"
proof -
  have "info n = Some i \<Longrightarrow> i \<noteq> [] \<Longrightarrow>
          (case info n of None \<Rightarrow> [] | Some i \<Rightarrow> (if i \<noteq> [] then split_ws i else []))
            = takeWhile (\<lambda>c. \<not> is_space c) i # tl (split_ws i)"
    using split_ws_first [of i] by simp
  then show ?thesis
    by (auto simp: code_block_def Let_def split: option.splits)
qed

theorem code_block_language_witness:
  "code_block default_options (example_code_block ''math'')
     = Component ''MathBlock'' [] [Text ''x''] \<and>
   code_block default_options (example_code_block ''latex display'')
     = Component ''MathBlock'' [] [Text ''x''] \<and>
   code_block default_options (example_code_block ''js numbered'')
     = Component ''CodeBlock'' [(''lang'', Str ''js'')] [Text ''x''] \<and>
   code_block default_options (example_code_block '' js'')
     = Component ''CodeBlock'' [(''lang'', Undefined)] [Text ''x''] \<and>
   code_block default_options (example_node ''code_block'')
     = Component ''CodeBlock'' [(''lang'', Undefined)] [Nothing] \<and>
   code_block example_esc_options (example_code_block ''math'')
     = Component ''MathBlock'' [] [Text ''x'']"
  using code_block_language [of "example_code_block ''math''" default_options "''math''"]
    code_block_language [of "example_code_block ''latex display''" default_options
      "''latex display''"]
    code_block_language [of "example_code_block ''js numbered''" default_options
      "''js numbered''"]
    code_block_language [of "example_code_block '' js''" default_options "'' js''"]
    code_block_language [of "example_node ''code_block''" default_options "[]"]
    code_block_language [of "example_code_block ''math''" example_esc_options "''math''"]
  by (simp add: example_code_block_def example_node_def default_options_def is_space_def
      example_esc_options_def LaydownNodeRenderer_def example_escapeXml_def)

text \<open>
  The claim as stated fails when an \<open>esc\<close> function is configured: with an XML escaping
  function the info string \<open>a&b c\<close>, whose first word is \<open>a&b\<close>, gives a code block
  tagged \<open>a&amp;b\<close>.
\<close>

theorem code_block_esc_counterexample:
  "takeWhile (\<lambda>c. \<not> is_space c) ''a&b c'' = ''a&b'' \<and>
   code_block example_esc_options (example_code_block ''a&b c'') =
     Component ''CodeBlock'' [(''lang'', Str ''a&amp;b'')] [Text ''x'']"
  by (simp add: is_space_def code_block_def example_esc_options_def example_code_block_def
      LaydownNodeRenderer_def default_options_def example_escapeXml_def Let_def)

section \<open>Tables\<close>

text \<open>
  Claim C10. For rendered children \<open>c0, c1, ..., cn\<close> the table renderer returns a
  \<open>table\<close> element whose children are \<open>c0\<close> and one \<open>tbody\<close> that holds \<open>c1, ..., cn\<close>
  in order. \<open>table_head\<close> wraps its children in one \<open>tr\<close> inside \<open>thead\<close>. A table cell
  with its \<open>customData\<close> object renders as \<open>th\<close> when the \<open>isHeader\<close> flag of the object
  is set and as \<open>td\<close> otherwise, with the \<open>align\<close> value of the object as its \<open>align\<close>
  prop, around its children.
\<close>

theorem table_layout:
  "table (c0 # rest) =
     Element ''table'' [] [Child c0, Child (Element ''tbody'' [] (jsx_children rest))] \<and>
   table_head cs = Element ''thead'' [] [Child (Element ''tr'' [] (jsx_children cs))] \<and>
   (customData n = Obj content \<longrightarrow>
      table_cell n cs =
        Inr (Element (if truthy (get_prop content ''isHeader'') then ''th'' else ''td'')
               [(''align'', get_prop content ''align'')] (jsx_children cs)))"
  by (simp add: table_def table_head_def table_cell_def Children_toArray_def)

theorem table_layout_witness:
  "table [thematic_break, linebreak, softbreak_node] =
     Element ''table'' []
       [Child thematic_break,
        Child (Element ''tbody'' [] [Child linebreak, Child softbreak_node])] \<and>
   table_cell (example_table_cell True) [linebreak] =
     Inr (Element ''th'' [(''align'', Str ''left'')] [Child linebreak]) \<and>
   table_cell (example_table_cell False) [linebreak] =
     Inr (Element ''td'' [(''align'', Str ''left'')] [Child linebreak])"
  using table_layout [of thematic_break "[linebreak, softbreak_node]" "[]"
      "example_table_cell True" "[(''isHeader'', Bool True), (''align'', Str ''left'')]"]
    table_layout [of thematic_break "[linebreak, softbreak_node]" "[linebreak]"
      "example_table_cell True" "[(''isHeader'', Bool True), (''align'', Str ''left'')]"]
    table_layout [of thematic_break "[linebreak, softbreak_node]" "[linebreak]"
      "example_table_cell False" "[(''isHeader'', Bool False), (''align'', Str ''left'')]"]
  by (simp add: example_table_cell_def get_prop_def)

section \<open>Inline triggers\<close>

lemma inlineHandlers_distinct_keys: "distinct (map fst inlineHandlers)"
  by (simp add: inlineHandlers_def)

end
